theory Spec2Isabelle
  imports Complex_Main
begin

section \<open>Numeric values and arrays\<close>

text \<open>
  A numpy float is either a finite number or one of the three non-finite values.
  Arrays handed in by the caller hold such floats, and so do the scalars of the
  learning-rate schedule. The arithmetic on them follows the rules of the floating-point
  standard for the non-finite values (a zero is the positive zero); on finite values it
  is exact: rounding and overflow are not modelled. The tensors that the network and the
  statistics compute inside the graph are idealised further, as matrices of real numbers:
  where the library would compute NaN or an infinity there (a mean over no rows, a
  division by zero) the model has some real number.
\<close>

datatype fl = Fin real | NaN | PosInf | NegInf

fun np_isfinite :: "fl \<Rightarrow> bool" where
  "np_isfinite (Fin _) = True"
| "np_isfinite NaN = False"
| "np_isfinite PosInf = False"
| "np_isfinite NegInf = False"

fun fin_val :: "fl \<Rightarrow> real" where
  "fin_val (Fin r) = r"
| "fin_val NaN = 0"
| "fin_val PosInf = 0"
| "fin_val NegInf = 0"

subsection \<open>Arithmetic on floats\<close>

fun fl_mul :: "fl \<Rightarrow> fl \<Rightarrow> fl" where
  "fl_mul NaN _ = NaN"
| "fl_mul _ NaN = NaN"
| "fl_mul (Fin x) (Fin y) = Fin (x * y)"
| "fl_mul (Fin x) PosInf = (if x = 0 then NaN else if 0 < x then PosInf else NegInf)"
| "fl_mul (Fin x) NegInf = (if x = 0 then NaN else if 0 < x then NegInf else PosInf)"
| "fl_mul PosInf (Fin y) = (if y = 0 then NaN else if 0 < y then PosInf else NegInf)"
| "fl_mul NegInf (Fin y) = (if y = 0 then NaN else if 0 < y then NegInf else PosInf)"
| "fl_mul PosInf PosInf = PosInf"
| "fl_mul PosInf NegInf = NegInf"
| "fl_mul NegInf PosInf = NegInf"
| "fl_mul NegInf NegInf = PosInf"

fun fl_add :: "fl \<Rightarrow> fl \<Rightarrow> fl" where
  "fl_add NaN _ = NaN"
| "fl_add _ NaN = NaN"
| "fl_add (Fin x) (Fin y) = Fin (x + y)"
| "fl_add (Fin x) PosInf = PosInf"
| "fl_add (Fin x) NegInf = NegInf"
| "fl_add PosInf (Fin y) = PosInf"
| "fl_add NegInf (Fin y) = NegInf"
| "fl_add PosInf PosInf = PosInf"
| "fl_add PosInf NegInf = NaN"
| "fl_add NegInf PosInf = NaN"
| "fl_add NegInf NegInf = NegInf"

fun fl_div :: "fl \<Rightarrow> fl \<Rightarrow> fl" where
  "fl_div NaN _ = NaN"
| "fl_div _ NaN = NaN"
| "fl_div (Fin x) (Fin y) =
     (if y = 0 then (if x = 0 then NaN else if 0 < x then PosInf else NegInf)
      else Fin (x / y))"
| "fl_div (Fin x) PosInf = Fin 0"
| "fl_div (Fin x) NegInf = Fin 0"
| "fl_div PosInf (Fin y) = (if 0 \<le> y then PosInf else NegInf)"
| "fl_div NegInf (Fin y) = (if 0 \<le> y then NegInf else PosInf)"
| "fl_div PosInf PosInf = NaN"
| "fl_div PosInf NegInf = NaN"
| "fl_div NegInf PosInf = NaN"
| "fl_div NegInf NegInf = NaN"

text \<open>
  The power function of the floating-point standard. On a finite base and exponent:
  any base to the power 0 is 1, and 1 to any power is 1; a positive base gives
  \<open>exp (y * ln x)\<close>; the base 0 gives 0 for a positive exponent and an infinity for a
  negative one; a negative base gives the repeated product for an integral exponent and
  NaN for any other.
\<close>

definition is_integral :: "real \<Rightarrow> bool" where
  "is_integral y = (y = of_int \<lfloor>y\<rfloor>)"

definition is_odd_integral :: "real \<Rightarrow> bool" where
  "is_odd_integral y = (is_integral y \<and> odd \<lfloor>y\<rfloor>)"

definition pow_finite :: "real \<Rightarrow> real \<Rightarrow> fl" where
  "pow_finite x y =
     (if y = 0 \<or> x = 1 then Fin 1
      else if 0 < x then Fin (x powr y)
      else if x = 0 then (if 0 < y then Fin 0 else PosInf)
      else if is_integral y
        then Fin (if 0 \<le> y then x ^ nat \<lfloor>y\<rfloor> else inverse (x ^ nat \<lfloor>- y\<rfloor>))
      else NaN)"

fun fl_pow :: "fl \<Rightarrow> fl \<Rightarrow> fl" where
  "fl_pow (Fin x) (Fin y) = pow_finite x y"
| "fl_pow (Fin x) NaN = (if x = 1 then Fin 1 else NaN)"
| "fl_pow (Fin x) PosInf = (if \<bar>x\<bar> < 1 then Fin 0 else if \<bar>x\<bar> = 1 then Fin 1 else PosInf)"
| "fl_pow (Fin x) NegInf = (if \<bar>x\<bar> < 1 then PosInf else if \<bar>x\<bar> = 1 then Fin 1 else Fin 0)"
| "fl_pow NaN (Fin y) = (if y = 0 then Fin 1 else NaN)"
| "fl_pow NaN NaN = NaN"
| "fl_pow NaN PosInf = NaN"
| "fl_pow NaN NegInf = NaN"
| "fl_pow PosInf (Fin y) = (if y = 0 then Fin 1 else if y < 0 then Fin 0 else PosInf)"
| "fl_pow NegInf (Fin y) =
     (if y = 0 then Fin 1 else if y < 0 then Fin 0
      else if is_odd_integral y then NegInf else PosInf)"
| "fl_pow PosInf NaN = NaN"
| "fl_pow NegInf NaN = NaN"
| "fl_pow PosInf PosInf = PosInf"
| "fl_pow NegInf PosInf = PosInf"
| "fl_pow PosInf NegInf = Fin 0"
| "fl_pow NegInf NegInf = Fin 0"

type_synonym matrix = "real list list"

type_synonym tensor3 = "fl list list list"

subsection \<open>Row slices \<open>t[0:c, :]\<close> and \<open>t[c:, :]\<close>\<close>

text \<open>
  A slice bound \<open>c\<close> on an axis of length \<open>n\<close>: a negative bound counts from the end,
  and the result is clamped to \<open>0..n\<close>.
\<close>

definition slice_bound :: "int \<Rightarrow> nat \<Rightarrow> nat" where
  "slice_bound c n = (if c < 0 then nat (max 0 (int n + c)) else min (nat c) n)"

definition rows_upto :: "int \<Rightarrow> 'a list \<Rightarrow> 'a list" where
  "rows_upto c t = take (slice_bound c (length t)) t"

definition rows_from :: "int \<Rightarrow> 'a list \<Rightarrow> 'a list" where
  "rows_from c t = drop (slice_bound c (length t)) t"

subsection \<open>Tensor operations used by the graph\<close>

text \<open>The static column count \<open>k\<close> of a matrix is passed where an operation needs it.\<close>

definition tf_reduce_mean_axis0 :: "nat \<Rightarrow> matrix \<Rightarrow> matrix" where
  "tf_reduce_mean_axis0 k m = [map (\<lambda>j. (\<Sum>r\<leftarrow>m. r ! j) / real (length m)) [0..<k]]"

definition tf_reduce_mean :: "matrix \<Rightarrow> real" where
  "tf_reduce_mean m = sum_list (concat m) / real (length (concat m))"

definition tf_reduce_sum_axis0 :: "nat \<Rightarrow> matrix \<Rightarrow> matrix" where
  "tf_reduce_sum_axis0 k m = [map (\<lambda>j. (\<Sum>r\<leftarrow>m. r ! j)) [0..<k]]"

text \<open>
  Subtraction of two tensors with the same number of columns: rows are paired, and a
  tensor of one row is broadcast over the rows of the other. Any other pair of row
  counts is refused by the library (\<open>tf_subtract_ok\<close>).
\<close>

definition tf_subtract_ok :: "matrix \<Rightarrow> matrix \<Rightarrow> bool" where
  "tf_subtract_ok a b = (length a = length b \<or> length a = 1 \<or> length b = 1)"

definition tf_subtract :: "matrix \<Rightarrow> matrix \<Rightarrow> matrix" where
  "tf_subtract a b =
     (if length a = 1 \<and> length b \<noteq> 1 then map (\<lambda>rb. map2 (-) (hd a) rb) b
      else if length b = 1 \<and> length a \<noteq> 1 then map (\<lambda>ra. map2 (-) ra (hd b)) a
      else map2 (map2 (-)) a b)"

text \<open>Subtraction of a \<open>[1, k]\<close> tensor from every row, and of a scalar from every entry.\<close>

definition tf_subtract_row :: "matrix \<Rightarrow> matrix \<Rightarrow> matrix" where
  "tf_subtract_row a b = map (\<lambda>r. map2 (-) r (hd b)) a"

definition tf_subtract_scalar :: "matrix \<Rightarrow> real \<Rightarrow> matrix" where
  "tf_subtract_scalar a s = map (map (\<lambda>v. v - s)) a"

definition tf_square :: "matrix \<Rightarrow> matrix" where
  "tf_square a = map (map (\<lambda>v. v * v)) a"

definition tf_sqrt :: "matrix \<Rightarrow> matrix" where
  "tf_sqrt a = map (map sqrt) a"

definition tf_add_scalar :: "matrix \<Rightarrow> real \<Rightarrow> matrix" where
  "tf_add_scalar a s = map (map (\<lambda>v. v + s)) a"

definition tf_div :: "matrix \<Rightarrow> matrix \<Rightarrow> matrix" where
  "tf_div a b = map2 (map2 (/)) a b"

definition tf_transpose :: "nat \<Rightarrow> matrix \<Rightarrow> matrix" where
  "tf_transpose k m = map (\<lambda>j. map (\<lambda>r. r ! j) m) [0..<k]"

definition tf_matmul :: "nat \<Rightarrow> matrix \<Rightarrow> matrix \<Rightarrow> matrix" where
  "tf_matmul k a b = map (\<lambda>ra. map (\<lambda>l. (\<Sum>(x, rb)\<leftarrow>zip ra b. x * rb ! l)) [0..<k]) a"

definition tf_l2_loss :: "matrix \<Rightarrow> real" where
  "tf_l2_loss t = (\<Sum>v\<leftarrow>concat t. v * v) / 2"

definition np_diagonal_mean :: "matrix \<Rightarrow> real" where
  "np_diagonal_mean m = (\<Sum>j\<leftarrow>[0..<length m]. m ! j ! j) / real (length m)"

section \<open>Hyperparameters\<close>

text \<open>
  The hyperparameters an instance stores. The activation function is not among them: it
  belongs to the library's network, which is a parameter of the model.
\<close>

record hyper =
  n_input_features :: "nat option"
  n_output_features :: nat
  batch_size :: "nat option"
  cell_type :: string
  n_states :: nat
  n_layers :: nat
  use_peepholes :: bool
  n_time_steps :: nat
  keep_prob :: real
  l1_reg_scale :: real
  l2_reg_scale :: real
  start_learning_rate :: real
  decay_steps :: real
  decay_rate :: real
  inner_iteration :: int
  forward_step :: int

section \<open>The computation graph\<close>

text \<open>
  The trainable variables are a list of flattened weight arrays. The recurrent network
  itself (cells, dropout wrapper, dynamic unrolling, dense projection) is the library's:
  it is a parameter \<open>net\<close> giving, for the variables, the dropout keep probability the
  cells were built with and one row of the batch (time steps by features), the
  prediction for that row. The library computes every row of a batch on its own. The
  dropout masks that the library draws anew at every run are not modelled: \<open>net\<close> is
  the network under one draw, and its values are real numbers.
\<close>

type_synonym params = "real list list"

type_synonym network = "params \<Rightarrow> real \<Rightarrow> fl list list \<Rightarrow> real list"

text \<open>
  \<open>pred\<close>: the dropout wrappers are built with the instance's \<open>keep_prob\<close>
  (\<open>output_keep_prob=self.keep_prob\<close>), not with the \<open>keep_prob\<close> placeholder.
\<close>

definition graph_pred :: "hyper \<Rightarrow> network \<Rightarrow> params \<Rightarrow> tensor3 \<Rightarrow> matrix" where
  "graph_pred hp net w X = map (net w (keep_prob hp)) X"

definition y_is :: "int \<Rightarrow> matrix \<Rightarrow> matrix" where
  "y_is in_sample_cutoff y = rows_upto in_sample_cutoff y"

definition pred_is :: "int \<Rightarrow> matrix \<Rightarrow> matrix" where
  "pred_is in_sample_cutoff pred = rows_upto in_sample_cutoff pred"

definition y_oos :: "int \<Rightarrow> matrix \<Rightarrow> matrix" where
  "y_oos in_sample_cutoff y = rows_from in_sample_cutoff y"

definition pred_oos :: "int \<Rightarrow> matrix \<Rightarrow> matrix" where
  "pred_oos in_sample_cutoff pred = rows_from in_sample_cutoff pred"

subsection \<open>Pearson correlation\<close>

definition epsilon :: real where
  "epsilon = 1 / 10000"

definition covariance :: "nat \<Rightarrow> matrix \<Rightarrow> matrix \<Rightarrow> matrix" where
  "covariance k p y =
     tf_matmul k
       (tf_transpose k (tf_subtract_row p (tf_reduce_mean_axis0 k p)))
       (tf_subtract_row y (tf_reduce_mean_axis0 k y))"

definition variance :: "nat \<Rightarrow> matrix \<Rightarrow> matrix" where
  "variance k t = tf_reduce_sum_axis0 k (tf_square (tf_subtract_scalar t (tf_reduce_mean t)))"

definition pearson_corr :: "nat \<Rightarrow> matrix \<Rightarrow> matrix \<Rightarrow> matrix" where
  "pearson_corr k p y =
     tf_div (covariance k p y)
       (tf_add_scalar
          (tf_sqrt (tf_matmul k (tf_transpose k (variance k p)) (variance k y)))
          epsilon)"

subsection \<open>Learning-rate schedule\<close>

text \<open>
  \<open>tf.train.exponential_decay\<close> without staircase: the library casts the step, the
  number of decay steps and the decay rate to the type of the learning rate, divides the
  step by the number of decay steps, and multiplies the learning rate by the decay rate
  to that power. The step is a placeholder, fed at each run; the other three are the
  instance's hyperparameters.
\<close>

definition exponential_decay :: "fl \<Rightarrow> fl \<Rightarrow> fl \<Rightarrow> fl \<Rightarrow> fl" where
  "exponential_decay learning_rate global_step decay_steps' decay_rate' =
     fl_mul learning_rate (fl_pow decay_rate' (fl_div global_step decay_steps'))"

definition adaptive_learning_rate :: "hyper \<Rightarrow> fl \<Rightarrow> fl" where
  "adaptive_learning_rate hp global_step =
     exponential_decay (Fin (start_learning_rate hp)) global_step (Fin (decay_steps hp))
       (Fin (decay_rate hp))"

subsection \<open>Loss and optimizer\<close>

definition l1_l2_regularizer :: "real \<Rightarrow> real \<Rightarrow> real list \<Rightarrow> real" where
  "l1_l2_regularizer scale_l1 scale_l2 w =
     scale_l1 * (\<Sum>v\<leftarrow>w. \<bar>v\<bar>) + scale_l2 * ((\<Sum>v\<leftarrow>w. v * v) / 2)"

definition apply_regularization :: "(real list \<Rightarrow> real) \<Rightarrow> params \<Rightarrow> real" where
  "apply_regularization regularizer ws = (\<Sum>w\<leftarrow>ws. regularizer w)"

definition graph_loss :: "hyper \<Rightarrow> network \<Rightarrow> params \<Rightarrow> tensor3 \<Rightarrow> matrix \<Rightarrow> int \<Rightarrow> real" where
  "graph_loss hp net w X y c =
     tf_l2_loss (tf_subtract (y_is c y) (pred_is c (graph_pred hp net w X)))
     + apply_regularization (l1_l2_regularizer (l1_reg_scale hp) (l2_reg_scale hp)) w"

definition graph_loss_oos :: "hyper \<Rightarrow> network \<Rightarrow> params \<Rightarrow> tensor3 \<Rightarrow> matrix \<Rightarrow> int \<Rightarrow> real" where
  "graph_loss_oos hp net w X y c =
     tf_l2_loss (tf_subtract (y_oos c y) (pred_oos c (graph_pred hp net w X)))"

text \<open>
  The variables of a session: the trainable weights and the optimizer's slots. The
  optimizer is the library's: \<open>minimize\<close> is given the loss as a function of the
  trainable weights, the learning rate and the current variables, and returns the
  variables after one step. How the library differentiates the loss (its
  back-propagation through all rows of the batch, in floating point) is not modelled.
\<close>

record tfvars =
  weights :: params
  slots :: params

type_synonym minimizer = "(params \<Rightarrow> real) \<Rightarrow> fl \<Rightarrow> tfvars \<Rightarrow> tfvars"

definition run_optimizer ::
  "hyper \<Rightarrow> network \<Rightarrow> minimizer \<Rightarrow> tensor3 \<Rightarrow> matrix \<Rightarrow> int \<Rightarrow> fl \<Rightarrow> tfvars \<Rightarrow> tfvars" where
  "run_optimizer hp net minimize X y c global_step vs =
     minimize (\<lambda>w. graph_loss hp net w X y c) (adaptive_learning_rate hp global_step) vs"

section \<open>Exceptions and effects\<close>

text \<open>
  A call either returns or raises, and what it did to the mutable state before raising
  stays done: an effectful function maps a state to an outcome and the state it leaves.
\<close>

datatype exn =
  AssertionError | AttributeError | NameError | TypeError | ValueError | ZeroDivisionError
  | PyException | TfError

type_synonym ('s, 'a) io = "'s \<Rightarrow> (exn + 'a) \<times> 's"

definition io_return :: "'a \<Rightarrow> ('s, 'a) io" where
  "io_return x s = (Inr x, s)"

definition io_raise :: "exn \<Rightarrow> ('s, 'a) io" where
  "io_raise e s = (Inl e, s)"

definition io_bind :: "('s, 'a) io \<Rightarrow> ('a \<Rightarrow> ('s, 'b) io) \<Rightarrow> ('s, 'b) io" where
  "io_bind m f s = (case m s of (Inl e, s') \<Rightarrow> (Inl e, s') | (Inr x, s') \<Rightarrow> f x s')"

definition io_assert :: "bool \<Rightarrow> ('s, unit) io" where
  "io_assert b = (if b then io_return () else io_raise AssertionError)"

definition io_modify :: "('s \<Rightarrow> 's) \<Rightarrow> ('s, unit) io" where
  "io_modify f s = (Inr (), f s)"

section \<open>The model instance\<close>

record results =
  all_actual_is :: "matrix option"
  all_actual_oos :: "matrix option"
  all_predicted_is :: "matrix option"
  all_predicted_oos :: "matrix option"
  all_epochs :: "int list"
  all_losses_per_epoch :: "real list"
  all_losses_oos_per_epoch :: "real list"
  all_corr_oos_per_epoch :: "real list"
  all_corr_is :: "real list"
  all_corr_oos :: "real list"

text \<open>
  \<open>graph\<close> tells whether \<open>self.graph\<close> is a graph object; \<open>graph_keys\<close> is
  \<open>None\<close> until a build has finished, and then records whether the summary writer
  could be created; \<open>model_saver\<close> tells whether a saver exists.
\<close>

record graph_keys =
  writer :: bool

record lstm =
  hp :: hyper
  sessid :: "string option"
  compute_device :: "string option"
  graph :: bool
  graph_keys :: "graph_keys option"
  model_saver :: bool
  graph_ready :: bool
  graph_trained :: bool
  trained_epochs :: int
  scope :: string
  log_dir :: string
  model_dir :: string
  res :: results

definition empty_results :: results where
  "empty_results =
     \<lparr>all_actual_is = None, all_actual_oos = None, all_predicted_is = None,
      all_predicted_oos = None, all_epochs = [], all_losses_per_epoch = [],
      all_losses_oos_per_epoch = [], all_corr_oos_per_epoch = [], all_corr_is = [],
      all_corr_oos = []\<rparr>"

definition clear_prev_results :: "lstm \<Rightarrow> lstm" where
  "clear_prev_results self = self\<lparr>res := empty_results\<rparr>"

subsection \<open>What the surroundings provide\<close>

text \<open>
  The library and the machine: the network and the optimizer (see above), the values
  the initializer gives the variables, the identifiers \<open>id_generator\<close> draws (the
  \<open>n\<close>-th draw), the local devices, whether the summary writer can be created, and
  the checkpoint paths that cannot be written.
\<close>

record env =
  net :: network
  minimize :: minimizer
  init_vars :: tfvars
  id_generator :: "nat \<Rightarrow> string"
  gpu :: "string list"
  cpu :: "string list"
  writer_fails :: bool
  save_fails :: "string \<Rightarrow> bool"

subsection \<open>Strings\<close>

definition char_upper :: "char \<Rightarrow> char" where
  "char_upper c =
     (let n = (of_char c :: nat) in if 97 \<le> n \<and> n \<le> 122 then char_of (n - 32) else c)"

definition char_lower :: "char \<Rightarrow> char" where
  "char_lower c =
     (let n = (of_char c :: nat) in if 65 \<le> n \<and> n \<le> 90 then char_of (n + 32) else c)"

definition upper :: "string \<Rightarrow> string" where
  "upper s = map char_upper s"

definition lower :: "string \<Rightarrow> string" where
  "lower s = map char_lower s"

subsection \<open>Construction\<close>

record init_args =
  a_n_input_features :: "nat option"
  a_n_output_features :: nat
  a_batch_size :: "nat option"
  a_cell_type :: string
  a_n_states :: nat
  a_n_layers :: nat
  a_use_peepholes :: bool
  a_n_time_steps :: nat
  a_keep_prob :: real
  a_l1_reg :: real
  a_l2_reg :: real
  a_start_learning_rate :: real
  a_decay_steps :: real
  a_decay_rate :: real
  a_inner_iteration :: int
  a_forward_step :: int
  a_create_graph :: bool
  a_scope :: string
  a_log_dir :: string
  a_model_dir :: string
  a_device :: string
  a_device_num :: nat

text \<open>
  Building the network (with the default \<open>reset_graph=True\<close>). The library calls that
  create placeholders, cells, the unrolling, the regularizer and the optimizer are taken
  to succeed, but for the stacked cell, which refuses an empty list of layers.
\<close>

definition create_lstm_graph :: "env \<Rightarrow> nat option \<Rightarrow> (lstm, unit) io" where
  "create_lstm_graph e n_input_features' self =
     (if n_input_features' = None \<and> n_input_features (hp self) = None
      then (Inl AssertionError, self)
      else
        let self1 = (case n_input_features' of
                       None \<Rightarrow> self
                     | Some n \<Rightarrow> self\<lparr>hp := (hp self)\<lparr>n_input_features := Some n\<rparr>\<rparr>);
            self2 = self1\<lparr>graph := True\<rparr>
        in case compute_device self2 of
             None \<Rightarrow> (Inl AttributeError, self2)
           | Some d \<Rightarrow>
               if cell_type (hp self2) = ''LSTM'' \<or> cell_type (hp self2) = ''GRU''
                  \<or> cell_type (hp self2) = ''RNN''
               then (if n_layers (hp self2) = 0 then (Inl ValueError, self2)
                     else (Inr (),
                           self2\<lparr>model_saver := True,
                                 graph_keys := Some \<lparr>writer = \<not> writer_fails e\<rparr>\<rparr>))
               else (Inl AssertionError, self2))"

text \<open>
  The device chosen by the constructor: for \<open>'gpu'\<close> the first GPU when there is one
  (whatever \<open>device_num\<close> is), else the CPU; an unknown selector leaves the attribute unset.
\<close>

definition select_device :: "env \<Rightarrow> string \<Rightarrow> nat \<Rightarrow> string option" where
  "select_device e device device_num =
     (if lower device = ''cpu'' then Some (hd (cpu e))
      else if lower device = ''gpu''
      then (case gpu e of [] \<Rightarrow> Some (hd (cpu e)) | g # _ \<Rightarrow> Some g)
      else None)"

definition init_fields :: "env \<Rightarrow> init_args \<Rightarrow> lstm" where
  "init_fields e a =
     \<lparr>hp = \<lparr>n_input_features = a_n_input_features a,
            n_output_features = a_n_output_features a,
            batch_size = a_batch_size a,
            cell_type = upper (a_cell_type a),
            n_states = a_n_states a,
            n_layers = a_n_layers a,
            use_peepholes = a_use_peepholes a,
            n_time_steps = a_n_time_steps a,
            keep_prob = a_keep_prob a,
            l1_reg_scale = a_l1_reg a,
            l2_reg_scale = a_l2_reg a,
            start_learning_rate = a_start_learning_rate a,
            decay_steps = a_decay_steps a,
            decay_rate = a_decay_rate a,
            inner_iteration = a_inner_iteration a,
            forward_step = a_forward_step a\<rparr>,
      sessid = None,
      compute_device = select_device e (a_device a) (a_device_num a),
      graph = False,
      graph_keys = None,
      model_saver = False,
      graph_ready = False,
      graph_trained = False,
      trained_epochs = 0,
      scope = a_scope a,
      log_dir = a_log_dir a,
      model_dir = a_model_dir a,
      res = empty_results\<rparr>"

text \<open>
  \<open>LSTM.__init__\<close>: the result is the exception raised to the caller, or the
  constructed instance. An exception of the build is caught: a message is printed and
  \<open>graph_ready\<close> is cleared.
\<close>

definition init :: "env \<Rightarrow> init_args \<Rightarrow> exn + lstm" where
  "init e a =
     (if cpu e = [] then Inl AssertionError
      else
        let self = init_fields e a in
        if a_create_graph a
        then (case create_lstm_graph e (a_n_input_features a) self of
                (Inr _, self') \<Rightarrow> Inr (self'\<lparr>graph_ready := True\<rparr>)
              | (Inl msg, self') \<Rightarrow> Inr (self'\<lparr>graph_ready := False\<rparr>))
        else Inr self)"

section \<open>Batches and data feeders\<close>

text \<open>
  A numpy array carries its shape, also when it has no rows. The values of a feeder's
  tuples are numpy arrays, numpy scalars, integers, strings or \<open>None\<close>.
\<close>

record array2 =
  rows2 :: "fl list list"
  cols2 :: nat

record array3 =
  rows3 :: "fl list list list"
  time3 :: nat
  feat3 :: nat

definition size2 :: "array2 \<Rightarrow> nat" where
  "size2 a = length (rows2 a) * cols2 a"

definition size3 :: "array3 \<Rightarrow> nat" where
  "size3 a = length (rows3 a) * time3 a * feat3 a"

definition isfinite_sum2 :: "array2 \<Rightarrow> nat" where
  "isfinite_sum2 a = length (filter np_isfinite (concat (rows2 a)))"

definition isfinite_sum3 :: "array3 \<Rightarrow> nat" where
  "isfinite_sum3 a = length (filter np_isfinite (concat (concat (rows3 a))))"

datatype pyval =
  PNone | PInt int | PFloat fl | PStr string | PArray2 array2 | PArray3 array3

text \<open>
  The feeder the training loop calls: the closure \<open>train\<close> builds around data passed
  directly, the caller's callable (which returns the same finite sequence of tuples at
  every call), or \<open>None\<close>.
\<close>

datatype feeder = Direct pyval pyval pyval pyval pyval | Callable "pyval list list" | NoFeeder

section \<open>The world of a training call\<close>

datatype event =
  Log_no_graph | Log_restore_failed | Log_restored_pretrained | Log_restored_active
  | Log_session_parameters | Log_epoch_start int | Log_epoch int | Log_epoch_end int
  | Log_save_ok | Log_save_failed | Log_diagnostic int | Log_new_sessid
  | Run_init | Run_optimizer fl | Run_evaluation | Run_pred | Add_summary int

text \<open>
  The instance, the checkpoint files on disk, what was logged and run so far, and the
  number of identifiers drawn from the random generator.
\<close>

record world =
  inst :: lstm
  disk :: "string \<Rightarrow> tfvars option"
  trace :: "event list"
  ids_drawn :: nat

definition log_event :: "event \<Rightarrow> world \<Rightarrow> world" where
  "log_event ev w = w\<lparr>trace := trace w @ [ev]\<rparr>"

definition upd_res :: "(results \<Rightarrow> results) \<Rightarrow> world \<Rightarrow> world" where
  "upd_res f w = w\<lparr>inst := (inst w)\<lparr>res := f (res (inst w))\<rparr>\<rparr>"

definition new_sessid :: "env \<Rightarrow> world \<Rightarrow> world" where
  "new_sessid e w =
     w\<lparr>inst := (inst w)\<lparr>sessid := Some (id_generator e (ids_drawn w))\<rparr>,
       ids_drawn := Suc (ids_drawn w)\<rparr>"

subsection \<open>Checkpoint paths\<close>

fun str_nat :: "nat \<Rightarrow> string" where
  "str_nat n =
     (if n < 10 then [char_of (48 + n)] else str_nat (n div 10) @ [char_of (48 + n mod 10)])"

definition str_int :: "int \<Rightarrow> string" where
  "str_int i = (if i < 0 then CHR ''-'' # str_nat (nat (- i)) else str_nat (nat i))"

definition fmt_sessid :: "string option \<Rightarrow> string" where
  "fmt_sessid s = (case s of None \<Rightarrow> ''None'' | Some x \<Rightarrow> x)"

definition path_join :: "string \<Rightarrow> string \<Rightarrow> string" where
  "path_join a b =
     (if b \<noteq> [] \<and> hd b = CHR ''/'' then b
      else if a = [] \<or> last a = CHR ''/'' then a @ b
      else a @ ''/'' @ b)"

definition epoch_ckpt :: "lstm \<Rightarrow> int \<Rightarrow> string" where
  "epoch_ckpt self i =
     path_join (model_dir self) (fmt_sessid (sessid self) @ ''_epoch_'' @ str_int i @ ''.ckpt'')"

definition latest_ckpt :: "lstm \<Rightarrow> string" where
  "latest_ckpt self = path_join (model_dir self) (fmt_sessid (sessid self) @ ''_latest.ckpt'')"

text \<open>
  \<open>model_saver.restore\<close>: without a saver the attribute access fails; a path with no
  checkpoint makes the library fail.
\<close>

definition saver_restore :: "world \<Rightarrow> string \<Rightarrow> exn + tfvars" where
  "saver_restore w path =
     (if \<not> model_saver (inst w) then Inl AttributeError
      else case disk w path of None \<Rightarrow> Inl TfError | Some vs \<Rightarrow> Inr vs)"

section \<open>Training\<close>

record train_args =
  t_batch_X :: pyval
  t_batch_y :: pyval
  t_in_sample_size :: pyval
  t_y_is_mean :: pyval
  t_y_is_std :: pyval
  t_data_feeder :: "pyval list list option"
  t_restore_model :: bool
  t_pre_trained_model :: "string option"
  t_epoch_prev :: int
  t_epoch_end :: int
  t_inner_iteration :: "int option"
  t_step :: int
  t_writer_step :: int
  t_display_step :: int

text \<open>The local variables of \<open>train\<close> that live across batches and epochs.\<close>

record locals =
  l_vars :: tfvars
  l_i :: int
  l_step :: int
  l_writer_step :: int
  l_inner_iteration :: "int option"
  l_total_sample_size :: "nat option"
  l_actual_oos :: "matrix option"
  l_predicted_oos :: "matrix option"
  l_loss_epoch :: real
  l_loss_oos_epoch :: real

definition choose_feeder :: "train_args \<Rightarrow> feeder" where
  "choose_feeder a =
     (if t_batch_X a \<noteq> PNone \<and> t_batch_y a \<noteq> PNone \<and> t_in_sample_size a \<noteq> PNone
         \<and> t_y_is_mean a \<noteq> PNone \<and> t_y_is_std a \<noteq> PNone
      then Direct (t_batch_X a) (t_batch_y a) (t_y_is_mean a) (t_y_is_std a) (t_in_sample_size a)
      else (case t_data_feeder a of None \<Rightarrow> NoFeeder | Some bs \<Rightarrow> Callable bs))"

text \<open>
  Calling the feeder. The closure around direct data returns a list of one tuple of six
  values, the last being the enclosing function's \<open>total_sample_size\<close>, which must be
  bound by then.
\<close>

definition call_feeder :: "feeder \<Rightarrow> locals \<Rightarrow> exn + pyval list list" where
  "call_feeder f l =
     (case f of
        Direct batch_X batch_y y_is_mean y_is_std in_sample_size \<Rightarrow>
          (case l_total_sample_size l of
             None \<Rightarrow> Inl NameError
           | Some total_sample_size \<Rightarrow>
               Inr [[batch_X, batch_y, y_is_mean, y_is_std, in_sample_size,
                     PInt (int total_sample_size)]])
      | Callable bs \<Rightarrow> Inr bs
      | NoFeeder \<Rightarrow> Inl TypeError)"

subsection \<open>Entering a training call\<close>

definition fresh_start :: "env \<Rightarrow> (world, tfvars \<times> int) io" where
  "fresh_start e w =
     (let w1 = w\<lparr>inst := clear_prev_results (inst w)\<rparr>;
          epoch_prev = 0
      in case graph_keys (inst w1) of
           None \<Rightarrow> (Inl TypeError, w1)
         | Some _ \<Rightarrow>
             (Inr (init_vars e, epoch_prev + 1),
              log_event Log_session_parameters (new_sessid e (log_event Run_init w1))))"

definition train_entry :: "env \<Rightarrow> train_args \<Rightarrow> (world, tfvars \<times> int) io" where
  "train_entry e a w =
     (if t_restore_model a
      then (case t_pre_trained_model a of
              Some pre_trained_model \<Rightarrow>
                (case saver_restore w (path_join (model_dir (inst w)) pre_trained_model) of
                   Inl msg \<Rightarrow> (Inl PyException, log_event Log_restore_failed w)
                 | Inr vs \<Rightarrow>
                     let w1 = (if sessid (inst w) = None then new_sessid e w else w)
                     in (Inr (vs, t_epoch_prev a + 1),
                         log_event Log_session_parameters
                           (log_event Log_restored_pretrained w1)))
            | None \<Rightarrow>
                if graph_trained (inst w)
                then (if sessid (inst w) = None then (Inl AssertionError, w)
                      else case saver_restore w (latest_ckpt (inst w)) of
                             Inl msg \<Rightarrow> (Inl PyException, log_event Log_restore_failed w)
                           | Inr vs \<Rightarrow>
                               (Inr (vs, trained_epochs (inst w) + 1),
                                log_event Log_session_parameters
                                  (log_event Log_restored_active w)))
                else fresh_start e w)
      else fresh_start e w)"

subsection \<open>One batch\<close>

text \<open>
  What the library checks when a batch is fed: the arrays must fit the placeholders'
  static shapes.
\<close>

definition feed_ok :: "hyper \<Rightarrow> array3 \<Rightarrow> array2 option \<Rightarrow> bool" where
  "feed_ok h X y =
     ((case batch_size h of None \<Rightarrow> True | Some b \<Rightarrow> length (rows3 X) = b)
      \<and> time3 X = n_time_steps h \<and> Some (feat3 X) = n_input_features h
      \<and> (case y of
           None \<Rightarrow> True
         | Some y' \<Rightarrow> (case batch_size h of None \<Rightarrow> True | Some b \<Rightarrow> length (rows2 y') = b)
                      \<and> cols2 y' = n_output_features h))"

definition label_matrix :: "array2 \<Rightarrow> matrix" where
  "label_matrix y = map (map fin_val) (rows2 y)"

definition denormalize :: "matrix \<Rightarrow> real \<Rightarrow> real \<Rightarrow> matrix" where
  "denormalize m y_is_std y_is_mean = map (map (\<lambda>v. v * y_is_std + y_is_mean)) m"

definition np_r :: "matrix option \<Rightarrow> matrix \<Rightarrow> matrix option" where
  "np_r acc m = (case acc of None \<Rightarrow> Some m | Some a \<Rightarrow> Some (a @ m))"

text \<open>
  The \<open>inner_iteration\<close> optimizer runs on one batch. Each run divides the epoch by
  \<open>epoch_end\<close> for the progress fraction, feeds the batch, and takes one optimizer
  step on the training loss.
\<close>

definition optimizer_runs ::
  "env \<Rightarrow> int \<Rightarrow> array3 \<Rightarrow> array2 \<Rightarrow> int \<Rightarrow> nat \<Rightarrow> locals \<Rightarrow> (world, locals) io" where
  "optimizer_runs e epoch_end X y in_sample_size n l w =
     (let h = hp (inst w) in
      if n = 0 then (Inr l, w)
      else if epoch_end = 0 then (Inl ZeroDivisionError, w)
      else if \<not> feed_ok h X (Some y) then (Inl ValueError, w)
      else if \<not> tf_subtract_ok (y_is in_sample_size (label_matrix y))
                 (pred_is in_sample_size (graph_pred h (net e) (weights (l_vars l)) (rows3 X)))
      then (Inl TfError, w)
      else
        let global_step = Fin (real_of_int (l_i l) / real_of_int epoch_end);
            run = run_optimizer h (net e) (minimize e) (rows3 X) (label_matrix y)
                    in_sample_size global_step
        in (Inr (l\<lparr>l_vars := (run ^^ n) (l_vars l)\<rparr>),
            w\<lparr>trace := trace w @ replicate n (Run_optimizer (adaptive_learning_rate h global_step))\<rparr>))"

text \<open>
  The evaluation run and the bookkeeping after it. The evaluation needs predictions and
  labels with the same number of rows in both parts of the split.
\<close>

definition record_batch ::
  "env \<Rightarrow> int \<Rightarrow> array3 \<Rightarrow> array2 \<Rightarrow> real \<Rightarrow> real \<Rightarrow> int \<Rightarrow> locals \<Rightarrow> (world, locals) io" where
  "record_batch e display_step X y y_is_mean y_is_std in_sample_size l w =
     (let h = hp (inst w); k = n_output_features h in
      if \<not> feed_ok h X (Some y) then (Inl ValueError, w)
      else if length (rows2 y) \<noteq> length (rows3 X) then (Inl TfError, w)
      else
        let ws = weights (l_vars l);
            y_val = label_matrix y;
            pred_val = graph_pred h (net e) ws (rows3 X);
            y_oos_val = y_oos in_sample_size y_val;
            pred_oos_val = pred_oos in_sample_size pred_val;
            pearson_corr_is_val = pearson_corr k (pred_is in_sample_size pred_val)
                                    (y_is in_sample_size y_val);
            pearson_corr_oos_val = pearson_corr k pred_oos_val y_oos_val;
            loss_val = graph_loss h (net e) ws (rows3 X) y_val in_sample_size;
            loss_oos_val = graph_loss_oos h (net e) ws (rows3 X) y_val in_sample_size;
            w1 = log_event Run_evaluation w
        in
        if rows_from in_sample_size y_val \<noteq> y_oos_val then (Inl AssertionError, w1)
        else if rows_from in_sample_size pred_val \<noteq> pred_oos_val then (Inl AssertionError, w1)
        else
          let y_val' = denormalize y_val y_is_std y_is_mean;
              y_oos_val' = denormalize y_oos_val y_is_std y_is_mean;
              pred_val' = denormalize pred_val y_is_std y_is_mean;
              pred_oos_val' = denormalize pred_oos_val y_is_std y_is_mean;
              l1 = l\<lparr>l_actual_oos := np_r (l_actual_oos l) y_oos_val',
                     l_predicted_oos := np_r (l_predicted_oos l) pred_oos_val'\<rparr>;
              w2 = upd_res (\<lambda>r. r
                     \<lparr>all_actual_is := np_r (all_actual_is r) (rows_upto in_sample_size y_val'),
                      all_actual_oos := np_r (all_actual_oos r) y_oos_val',
                      all_predicted_is :=
                        np_r (all_predicted_is r) (rows_upto in_sample_size pred_val'),
                      all_predicted_oos := np_r (all_predicted_oos r) pred_oos_val',
                      all_corr_is := all_corr_is r @ [np_diagonal_mean pearson_corr_is_val],
                      all_corr_oos := all_corr_oos r @ [np_diagonal_mean pearson_corr_oos_val]\<rparr>)
                     w1;
              l2 = l1\<lparr>l_loss_epoch := l_loss_epoch l1 + loss_val,
                      l_loss_oos_epoch := l_loss_oos_epoch l1 + loss_oos_val\<rparr>
          in
          if display_step = 0 then (Inl ZeroDivisionError, w2)
          else if l_step l2 mod display_step = 0
          then (case graph_keys (inst w2) of
                  None \<Rightarrow> (Inl TypeError, w2)
                | Some keys \<Rightarrow>
                    if \<not> writer keys then (Inl AttributeError, w2)
                    else (Inr (l2\<lparr>l_writer_step := l_writer_step l2 + 1,
                                  l_step := l_step l2 + 1\<rparr>),
                          log_event (Log_diagnostic (l_step l2))
                            (log_event (Add_summary (l_writer_step l2)) w2)))
          else (Inr (l2\<lparr>l_step := l_step l2 + 1\<rparr>), w2))"

text \<open>
  The body of the loop over the feeder's tuples, with the default
  \<open>return_weights=False\<close>. A tuple is unpacked into seven names. A value of another
  kind than the protocol's (an array for \<open>batch_X\<close> and \<open>batch_y\<close>, numpy scalars for
  mean and standard deviation, an integer for \<open>in_sample_size\<close>) raises where it is
  first used.
\<close>

definition train_batch :: "env \<Rightarrow> int \<Rightarrow> int \<Rightarrow> pyval list \<Rightarrow> locals \<Rightarrow> (world, locals) io" where
  "train_batch e epoch_end display_step t l w =
     (if length t \<noteq> 7 then (Inl ValueError, w)
      else
        let batch_X = t ! 0; batch_y = t ! 1; y_is_mean = t ! 2; y_is_std = t ! 3;
            batch_y_index = t ! 4; in_sample_size = t ! 5; batch_id = t ! 6
        in case batch_X of
             PArray3 X \<Rightarrow>
               let total_sample_size = length (rows3 X);
                   l1 = l\<lparr>l_total_sample_size := Some total_sample_size\<rparr>
               in
               if isfinite_sum3 X \<noteq> size3 X then (Inr l1, w)
               else (case batch_y of
                  PArray2 y \<Rightarrow>
                    if isfinite_sum2 y \<noteq> size2 y then (Inr l1, w)
                    else (case y_is_mean of
                      PFloat m \<Rightarrow>
                        if \<not> np_isfinite m then (Inl AssertionError, w)
                        else (case y_is_std of
                          PFloat sd \<Rightarrow>
                            if \<not> np_isfinite sd then (Inl AssertionError, w)
                            else (case in_sample_size of
                              PInt n \<Rightarrow>
                                if \<not> n \<le> int total_sample_size then (Inl AssertionError, w)
                                else if Some (feat3 X) \<noteq> n_input_features (hp (inst w))
                                then (Inl AssertionError, w)
                                else if cols2 y \<noteq> n_output_features (hp (inst w))
                                then (Inl AssertionError, w)
                                else
                                  let inner = (case l_inner_iteration l1 of
                                                 None \<Rightarrow> inner_iteration (hp (inst w))
                                               | Some it \<Rightarrow> it);
                                      l2 = l1\<lparr>l_inner_iteration := Some inner\<rparr>
                                  in
                                  if \<not> 1 \<le> inner then (Inl AssertionError, w)
                                  else io_bind (optimizer_runs e epoch_end X y n (nat inner) l2)
                                         (record_batch e display_step X y (fin_val m)
                                            (fin_val sd) n) w
                            | _ \<Rightarrow> (Inl TypeError, w))
                        | _ \<Rightarrow> (Inl TypeError, w))
                    | _ \<Rightarrow> (Inl TypeError, w))
                | _ \<Rightarrow> (Inl TypeError, w))
           | _ \<Rightarrow> (Inl AttributeError, w))"

fun train_batches ::
  "env \<Rightarrow> int \<Rightarrow> int \<Rightarrow> pyval list list \<Rightarrow> locals \<Rightarrow> (world, locals) io" where
  "train_batches e epoch_end display_step [] l w = (Inr l, w)"
| "train_batches e epoch_end display_step (t # ts) l w =
     (case train_batch e epoch_end display_step t l w of
        (Inl ex, w') \<Rightarrow> (Inl ex, w')
      | (Inr l', w') \<Rightarrow> train_batches e epoch_end display_step ts l' w')"

subsection \<open>The end of an epoch\<close>

definition np_corrcoef :: "real list \<Rightarrow> real list \<Rightarrow> real" where
  "np_corrcoef a b =
     (let ma = sum_list a / real (length a); mb = sum_list b / real (length b)
      in (\<Sum>(u, v)\<leftarrow>zip a b. (u - ma) * (v - mb))
         / sqrt ((\<Sum>u\<leftarrow>a. (u - ma) * (u - ma)) * (\<Sum>v\<leftarrow>b. (v - mb) * (v - mb))))"

definition save_checkpoints :: "env \<Rightarrow> locals \<Rightarrow> world \<Rightarrow> world" where
  "save_checkpoints e l w =
     (if \<not> model_saver (inst w) \<or> save_fails e (epoch_ckpt (inst w) (l_i l))
      then log_event Log_save_failed w
      else
        let w1 = w\<lparr>disk := (disk w)(epoch_ckpt (inst w) (l_i l) \<mapsto> l_vars l)\<rparr> in
        if save_fails e (latest_ckpt (inst w)) then log_event Log_save_failed w1
        else log_event Log_save_ok (w1\<lparr>disk := (disk w1)(latest_ckpt (inst w) \<mapsto> l_vars l)\<rparr>))"

definition end_of_epoch :: "env \<Rightarrow> locals \<Rightarrow> (world, locals) io" where
  "end_of_epoch e l w =
     (case l_actual_oos l of
        None \<Rightarrow> (Inl AttributeError, w)
      | Some actual_oos \<Rightarrow>
          (case l_predicted_oos l of
             None \<Rightarrow> (Inl AttributeError, w)
           | Some predicted_oos \<Rightarrow>
               if length actual_oos \<noteq> length predicted_oos then (Inl AssertionError, w)
               else
                 let k = n_output_features (hp (inst w));
                     corr_epoch = map (\<lambda>j. np_corrcoef (map (\<lambda>r. r ! j) actual_oos)
                                             (map (\<lambda>r. r ! j) predicted_oos)) [0..<k];
                     corr_epoch_oos = sum_list corr_epoch / real (length corr_epoch);
                     w1 = upd_res (\<lambda>r. r
                            \<lparr>all_epochs := all_epochs r @ [l_i l],
                             all_losses_per_epoch := all_losses_per_epoch r @ [l_loss_epoch l],
                             all_losses_oos_per_epoch :=
                               all_losses_oos_per_epoch r @ [l_loss_oos_epoch l],
                             all_corr_oos_per_epoch :=
                               all_corr_oos_per_epoch r @ [corr_epoch_oos]\<rparr>) w;
                     w2 = log_event (Log_epoch_end (l_i l)) (log_event (Log_epoch (l_i l)) w1)
                 in (Inr l, save_checkpoints e l w2)))"

definition train_epoch :: "env \<Rightarrow> feeder \<Rightarrow> int \<Rightarrow> int \<Rightarrow> locals \<Rightarrow> (world, locals) io" where
  "train_epoch e f epoch_end display_step l w =
     (let w1 = log_event (Log_epoch_start (l_i l)) w;
          l1 = l\<lparr>l_actual_oos := None, l_predicted_oos := None,
                 l_loss_epoch := 0, l_loss_oos_epoch := 0\<rparr>
      in case call_feeder f l1 of
           Inl ex \<Rightarrow> (Inl ex, w1)
         | Inr ts \<Rightarrow>
             io_bind (train_batches e epoch_end display_step ts l1) (end_of_epoch e) w1)"

subsection \<open>The epoch loop and the whole call\<close>

function train_loop :: "env \<Rightarrow> feeder \<Rightarrow> int \<Rightarrow> int \<Rightarrow> locals \<Rightarrow> (world, locals) io" where
  "train_loop e f epoch_end display_step l w =
     (if l_i l \<le> epoch_end
      then (case train_epoch e f epoch_end display_step l w of
              (Inl ex, w') \<Rightarrow> (Inl ex, w')
            | (Inr l', w') \<Rightarrow>
                train_loop e f epoch_end display_step (l'\<lparr>l_i := l_i l + 1\<rparr>) w')
      else (Inr l, w))"
  by pat_completeness auto
termination
  by (relation "measure (\<lambda>(e, f, epoch_end, display_step, l, w). nat (epoch_end + 1 - l_i l))")
    auto

declare train_loop.simps [simp del]

definition initial_locals :: "train_args \<Rightarrow> tfvars \<Rightarrow> int \<Rightarrow> locals" where
  "initial_locals a vs i =
     \<lparr>l_vars = vs, l_i = i, l_step = t_step a, l_writer_step = t_writer_step a,
      l_inner_iteration = t_inner_iteration a, l_total_sample_size = None,
      l_actual_oos = None, l_predicted_oos = None, l_loss_epoch = 0, l_loss_oos_epoch = 0\<rparr>"

definition mark_trained :: "int \<Rightarrow> world \<Rightarrow> world" where
  "mark_trained i w = w\<lparr>inst := (inst w)\<lparr>graph_trained := True, trained_epochs := i - 1\<rparr>\<rparr>"

definition train :: "env \<Rightarrow> train_args \<Rightarrow> (world, results option) io" where
  "train e a w =
     (if \<not> graph (inst w) then (Inr None, log_event Log_no_graph w)
      else
        let f = choose_feeder a in
        case compute_device (inst w) of
          None \<Rightarrow> (Inl AttributeError, w)
        | Some device \<Rightarrow>
            (case train_entry e a w of
               (Inl ex, w1) \<Rightarrow> (Inl ex, w1)
             | (Inr (vs, i), w1) \<Rightarrow>
                 (case train_loop e f (t_epoch_end a) (t_display_step a)
                         (initial_locals a vs i) w1 of
                    (Inl ex, w2) \<Rightarrow> (Inl ex, w2)
                  | (Inr l, w2) \<Rightarrow>
                      let w3 = mark_trained (l_i l) w2
                      in (Inr (Some (res (inst w3))), w3))))"

section \<open>Prediction\<close>

subsection \<open>Arithmetic on the values of a tuple\<close>

definition str_repeat :: "string \<Rightarrow> int \<Rightarrow> string" where
  "str_repeat s n = concat (replicate (nat n) s)"

text \<open>
  The binary operators \<open>*\<close> and \<open>+\<close> on the values of a tuple: numbers, an array
  with a number (entry by entry), two arrays of the same shape, and the string cases of
  the language; \<open>None\<close> and every other mix of kinds is a \<open>TypeError\<close>. The
  broadcasting of two arrays of different shapes is not modelled: it raises
  \<open>ValueError\<close> here.
\<close>

definition arr2_map :: "(fl \<Rightarrow> fl) \<Rightarrow> array2 \<Rightarrow> array2" where
  "arr2_map f a = a\<lparr>rows2 := map (map f) (rows2 a)\<rparr>"

definition arr3_map :: "(fl \<Rightarrow> fl) \<Rightarrow> array3 \<Rightarrow> array3" where
  "arr3_map f a = a\<lparr>rows3 := map (map (map f)) (rows3 a)\<rparr>"

definition arr2_zip :: "(fl \<Rightarrow> fl \<Rightarrow> fl) \<Rightarrow> array2 \<Rightarrow> array2 \<Rightarrow> exn + pyval" where
  "arr2_zip f a b =
     (if length (rows2 a) = length (rows2 b) \<and> cols2 a = cols2 b
      then Inr (PArray2 (a\<lparr>rows2 := map2 (map2 f) (rows2 a) (rows2 b)\<rparr>))
      else Inl ValueError)"

definition arr3_zip :: "(fl \<Rightarrow> fl \<Rightarrow> fl) \<Rightarrow> array3 \<Rightarrow> array3 \<Rightarrow> exn + pyval" where
  "arr3_zip f a b =
     (if length (rows3 a) = length (rows3 b) \<and> time3 a = time3 b \<and> feat3 a = feat3 b
      then Inr (PArray3 (a\<lparr>rows3 := map2 (map2 (map2 f)) (rows3 a) (rows3 b)\<rparr>))
      else Inl ValueError)"

fun py_num :: "(int \<Rightarrow> int \<Rightarrow> int) \<Rightarrow> (fl \<Rightarrow> fl \<Rightarrow> fl) \<Rightarrow> pyval \<Rightarrow> pyval \<Rightarrow> exn + pyval" where
  "py_num fi ff (PInt a) (PInt b) = Inr (PInt (fi a b))"
| "py_num fi ff (PInt a) (PFloat b) = Inr (PFloat (ff (Fin (of_int a)) b))"
| "py_num fi ff (PFloat a) (PInt b) = Inr (PFloat (ff a (Fin (of_int b))))"
| "py_num fi ff (PFloat a) (PFloat b) = Inr (PFloat (ff a b))"
| "py_num fi ff (PArray2 a) (PInt b) = Inr (PArray2 (arr2_map (\<lambda>v. ff v (Fin (of_int b))) a))"
| "py_num fi ff (PArray2 a) (PFloat b) = Inr (PArray2 (arr2_map (\<lambda>v. ff v b) a))"
| "py_num fi ff (PInt a) (PArray2 b) = Inr (PArray2 (arr2_map (\<lambda>v. ff (Fin (of_int a)) v) b))"
| "py_num fi ff (PFloat a) (PArray2 b) = Inr (PArray2 (arr2_map (\<lambda>v. ff a v) b))"
| "py_num fi ff (PArray3 a) (PInt b) = Inr (PArray3 (arr3_map (\<lambda>v. ff v (Fin (of_int b))) a))"
| "py_num fi ff (PArray3 a) (PFloat b) = Inr (PArray3 (arr3_map (\<lambda>v. ff v b) a))"
| "py_num fi ff (PInt a) (PArray3 b) = Inr (PArray3 (arr3_map (\<lambda>v. ff (Fin (of_int a)) v) b))"
| "py_num fi ff (PFloat a) (PArray3 b) = Inr (PArray3 (arr3_map (\<lambda>v. ff a v) b))"
| "py_num fi ff (PArray2 a) (PArray2 b) = arr2_zip ff a b"
| "py_num fi ff (PArray3 a) (PArray3 b) = arr3_zip ff a b"
| "py_num fi ff (PArray2 a) (PArray3 b) = Inl ValueError"
| "py_num fi ff (PArray3 a) (PArray2 b) = Inl ValueError"
| "py_num fi ff _ _ = Inl TypeError"

fun py_mul :: "pyval \<Rightarrow> pyval \<Rightarrow> exn + pyval" where
  "py_mul (PStr s) (PInt n) = Inr (PStr (str_repeat s n))"
| "py_mul (PInt n) (PStr s) = Inr (PStr (str_repeat s n))"
| "py_mul a b = py_num (*) fl_mul a b"

fun py_add :: "pyval \<Rightarrow> pyval \<Rightarrow> exn + pyval" where
  "py_add (PStr s) (PStr t) = Inr (PStr (s @ t))"
| "py_add a b = py_num (+) fl_add a b"

text \<open>\<open>v * y_astd + y_mean\<close>.\<close>

definition rescale :: "pyval \<Rightarrow> pyval \<Rightarrow> pyval \<Rightarrow> exn + pyval" where
  "rescale v y_astd y_mean =
     (case py_mul v y_astd of Inl ex \<Rightarrow> Inl ex | Inr p \<Rightarrow> py_add p y_mean)"

subsection \<open>The generator\<close>

text \<open>
  An element of the data source is a tuple or any other object (a raw input array).
\<close>

datatype item = Tuple "pyval list" | Object pyval

record predict_args =
  p_batch_X :: pyval
  p_data_feeder :: "item list option"
  p_pre_trained_model :: "string option"
  p_device :: "string option"

definition predict_entry :: "env \<Rightarrow> predict_args \<Rightarrow> (world, tfvars) io" where
  "predict_entry e a w =
     (case p_pre_trained_model a of
        Some pre_trained_model \<Rightarrow>
          (case saver_restore w (path_join (model_dir (inst w)) pre_trained_model) of
             Inl msg \<Rightarrow> (Inl PyException, log_event Log_restore_failed w)
           | Inr vs \<Rightarrow>
               let w1 = (if sessid (inst w) = None
                         then log_event Log_new_sessid (new_sessid e w) else w)
               in (Inr vs, log_event Log_session_parameters
                             (log_event Log_restored_pretrained w1)))
      | None \<Rightarrow>
          if sessid (inst w) = None then (Inl AssertionError, w)
          else (case saver_restore w (latest_ckpt (inst w)) of
                  Inl ex \<Rightarrow> (Inl ex, w)
                | Inr vs \<Rightarrow> (Inr vs, log_event Log_session_parameters w)))"

text \<open>
  The prediction of one batch as an array of shape \<open>[1, batch, outputs]\<close>:
  \<open>np.array\<close> of the one-element list the session run returns.
\<close>

definition pred_array :: "hyper \<Rightarrow> matrix \<Rightarrow> pyval" where
  "pred_array h pred_val =
     PArray3 \<lparr>rows3 = [map (map Fin) pred_val], time3 = length pred_val,
              feat3 = n_output_features h\<rparr>"

definition unpack_item :: "item \<Rightarrow> exn + pyval list" where
  "unpack_item data' =
     (case data' of
        Tuple t \<Rightarrow> if length t = 7 then Inr t else Inl ValueError
      | Object d \<Rightarrow> Inr [d, PNone, PNone, PNone, PNone, PNone, PNone])"

definition predict_item :: "env \<Rightarrow> tfvars \<Rightarrow> item \<Rightarrow> (world, pyval list) io" where
  "predict_item e vs data' w =
     (case unpack_item data' of
        Inl ex \<Rightarrow> (Inl ex, w)
      | Inr t \<Rightarrow>
          let batch_X = t ! 0; batch_y = t ! 1; y_mean = t ! 2; y_astd = t ! 3;
              y_index = t ! 4; in_sample_size = t ! 5; this_gvkey = t ! 6
          in (case batch_X of
               PArray3 X \<Rightarrow>
                 if \<not> feed_ok (hp (inst w)) X None then (Inl ValueError, w)
                 else
                   let pred_val = graph_pred (hp (inst w)) (net e) (weights vs) (rows3 X);
                       w1 = log_event Run_pred w
                   in (case rescale batch_y y_astd y_mean of
                         Inl ex \<Rightarrow> (Inl ex, w1)
                       | Inr batch_y' \<Rightarrow>
                           (case rescale (pred_array (hp (inst w)) pred_val) y_astd y_mean of
                              Inl ex \<Rightarrow> (Inl ex, w1)
                            | Inr pred_val' \<Rightarrow>
                                (Inr [pred_val', batch_X, batch_y', y_mean, y_astd, y_index,
                                      this_gvkey], w1)))
             | _ \<Rightarrow> (Inl AttributeError, w)))"

text \<open>
  Running the generator to its end over a finite data source: the tuples it yields, and
  the exception that ends it, if one does.
\<close>

fun predict_items ::
  "env \<Rightarrow> tfvars \<Rightarrow> item list \<Rightarrow> world \<Rightarrow> (pyval list list \<times> exn option) \<times> world" where
  "predict_items e vs [] w = (([], None), w)"
| "predict_items e vs (d # ds) w =
     (case predict_item e vs d w of
        (Inl ex, w') \<Rightarrow> (([], Some ex), w')
      | (Inr out, w') \<Rightarrow>
          (case predict_items e vs ds w' of ((outs, r), w'') \<Rightarrow> ((out # outs, r), w'')))"

definition predict ::
  "env \<Rightarrow> predict_args \<Rightarrow> world \<Rightarrow> (pyval list list \<times> exn option) \<times> world" where
  "predict e a w =
     (if \<not> graph (inst w) then (([], None), log_event Log_no_graph w)
      else
        let data_feeder = (if p_batch_X a \<noteq> PNone then Some [Object (p_batch_X a)]
                           else p_data_feeder a);
            device = (case p_device a of None \<Rightarrow> compute_device (inst w) | Some d \<Rightarrow> Some d)
        in case device of
             None \<Rightarrow> (([], Some AttributeError), w)
           | Some d \<Rightarrow>
               (case predict_entry e a w of
                  (Inl ex, w1) \<Rightarrow> (([], Some ex), w1)
                | (Inr vs, w1) \<Rightarrow>
                    (case data_feeder of
                       None \<Rightarrow> (([], Some TypeError), w1)
                     | Some ds \<Rightarrow> predict_items e vs ds w1)))"

section \<open>Series and concrete instances\<close>



text \<open>
  A small configuration: one input feature, one output, one time step. Its network
  predicts the first input value of a row, its optimizer leaves the variables as they are.
\<close>

definition demo_env :: env where
  "demo_env =
     \<lparr>net = (\<lambda>w kp row. [fin_val (row ! 0 ! 0)]), minimize = (\<lambda>loss rate vs. vs),
      init_vars = \<lparr>weights = [[0]], slots = []\<rparr>,
      id_generator = (\<lambda>n. ''SESS'' @ str_nat n),
      gpu = [], cpu = [''/device:CPU:0''], writer_fails = False,
      save_fails = (\<lambda>p. False)\<rparr>"

definition demo_args :: "string \<Rightarrow> init_args" where
  "demo_args kind =
     \<lparr>a_n_input_features = Some 1, a_n_output_features = 1, a_batch_size = None,
      a_cell_type = kind, a_n_states = 1, a_n_layers = 1, a_use_peepholes = True,
      a_n_time_steps = 1, a_keep_prob = 1 / 2, a_l1_reg = 1 / 100, a_l2_reg = 1 / 1000,
      a_start_learning_rate = 1 / 1000, a_decay_steps = 1, a_decay_rate = 3 / 10,
      a_inner_iteration = 10, a_forward_step = 1, a_create_graph = True,
      a_scope = ''lstm'', a_log_dir = ''logs'', a_model_dir = ''saved_models'',
      a_device = ''cpu'', a_device_num = 0\<rparr>"

definition demo_instance :: lstm where
  "demo_instance = projr (init demo_env (demo_args ''lstm''))"

definition demo_world :: world where
  "demo_world = \<lparr>inst = demo_instance, disk = (\<lambda>p. None), trace = [], ids_drawn = 0\<rparr>"

definition demo_train_args :: "pyval list list option \<Rightarrow> int \<Rightarrow> train_args" where
  "demo_train_args feeder' last_epoch =
     \<lparr>t_batch_X = PNone, t_batch_y = PNone, t_in_sample_size = PNone,
      t_y_is_mean = PFloat (Fin 0), t_y_is_std = PFloat (Fin 1),
      t_data_feeder = feeder', t_restore_model = True, t_pre_trained_model = None,
      t_epoch_prev = 0, t_epoch_end = last_epoch, t_inner_iteration = None,
      t_step = 1, t_writer_step = 1, t_display_step = 50\<rparr>"

text \<open>A batch of two rows, the first in sample, and a batch whose input holds a NaN.\<close>

definition demo_X :: array3 where
  "demo_X = \<lparr>rows3 = [[[Fin 1]], [[Fin 2]]], time3 = 1, feat3 = 1\<rparr>"

definition demo_y :: array2 where
  "demo_y = \<lparr>rows2 = [[Fin 1], [Fin 3]], cols2 = 1\<rparr>"


definition nan_batch :: "pyval list" where
  "nan_batch =
     [PArray3 \<lparr>rows3 = [[[NaN]]], time3 = 1, feat3 = 1\<rparr>,
      PArray2 \<lparr>rows2 = [[Fin 0]], cols2 = 1\<rparr>,
      PFloat (Fin 0), PFloat (Fin 1), PNone, PInt 1, PStr ''batch0'']"

text \<open>Calls of \<open>train\<close>: with the data passed directly, and with an explicit checkpoint
  name for which no file exists.\<close>

definition demo_direct_args :: "int \<Rightarrow> train_args" where
  "demo_direct_args last_epoch =
     (demo_train_args None last_epoch)
       \<lparr>t_batch_X := PArray3 demo_X, t_batch_y := PArray2 demo_y, t_in_sample_size := PInt 1\<rparr>"





text \<open>
  A world as a trained instance with session identifier \<open>SESS0\<close> leaves it, with its
  latest checkpoint on disk, and a prediction call on one raw input array.
\<close>

definition demo_trained_world :: world where
  "demo_trained_world =
     \<lparr>inst = demo_instance\<lparr>sessid := Some ''SESS0'', graph_trained := True,
                            trained_epochs := 5\<rparr>,
      disk = [''saved_models/SESS0_latest.ckpt'' \<mapsto> init_vars demo_env],
      trace = [], ids_drawn = 1\<rparr>"

definition demo_predict_args :: predict_args where
  "demo_predict_args =
     \<lparr>p_batch_X = PArray3 demo_X, p_data_feeder = None, p_pre_trained_model = None,
      p_device = None\<rparr>"

section \<open>Observations on runs\<close>

text \<open>The number of optimizer runs a world has seen.\<close>

definition is_optimizer_run :: "event \<Rightarrow> bool" where
  "is_optimizer_run ev = (case ev of Run_optimizer r \<Rightarrow> True | _ \<Rightarrow> False)"

definition optimizer_steps :: "world \<Rightarrow> nat" where
  "optimizer_steps w = length (filter is_optimizer_run (trace w))"

text \<open>
  Two worlds with the same instance and the same number of identifiers drawn (their
  disks and traces may differ); two outcomes that agree up to that; and two surroundings
  with the same library (they may differ in which saves fail).
\<close>

definition same_state :: "world \<Rightarrow> world \<Rightarrow> bool" where
  "same_state w w' = (inst w = inst w' \<and> ids_drawn w = ids_drawn w')"

definition io_same :: "(exn + 'a) \<times> world \<Rightarrow> (exn + 'a) \<times> world \<Rightarrow> bool" where
  "io_same r r' = (fst r = fst r' \<and> same_state (snd r) (snd r'))"


text \<open>
  The part of an instance that a training run leaves alone once it has entered its
  epoch loop: everything but the results and the trained marks. \<open>extends k w w'\<close>: the
  world \<open>w'\<close> has that part and the identifiers drawn as \<open>w\<close> has, and the epochs
  \<open>k\<close> appended to the epoch history.
\<close>

definition frame :: "lstm \<Rightarrow> lstm" where
  "frame self = self\<lparr>res := empty_results, graph_trained := False, trained_epochs := 0\<rparr>"

definition extends :: "int list \<Rightarrow> world \<Rightarrow> world \<Rightarrow> bool" where
  "extends k w w' =
     (frame (inst w') = frame (inst w) \<and> ids_drawn w' = ids_drawn w
      \<and> all_epochs (res (inst w')) = all_epochs (res (inst w)) @ k)"

section \<open>The concrete instance\<close>

lemma upper_lstm: "upper ''lstm'' = ''LSTM''"
  by code_simp

lemma upper_foo: "upper ''foo'' = ''FOO''"
  by code_simp

lemma lower_cpu: "lower ''cpu'' = ''cpu''"
  by code_simp

lemma demo_instance_eq:
  "demo_instance =
     \<lparr>hp = \<lparr>n_input_features = Some 1, n_output_features = 1, batch_size = None,
            cell_type = ''LSTM'', n_states = 1, n_layers = 1, use_peepholes = True,
            n_time_steps = 1, keep_prob = 1 / 2, l1_reg_scale = 1 / 100,
            l2_reg_scale = 1 / 1000, start_learning_rate = 1 / 1000, decay_steps = 1,
            decay_rate = 3 / 10, inner_iteration = 10, forward_step = 1\<rparr>,
      sessid = None, compute_device = Some ''/device:CPU:0'', graph = True,
      graph_keys = Some \<lparr>writer = True\<rparr>, model_saver = True, graph_ready = True,
      graph_trained = False, trained_epochs = 0, scope = ''lstm'', log_dir = ''logs'',
      model_dir = ''saved_models'', res = empty_results\<rparr>"
  by (simp add: demo_instance_def init_def init_fields_def demo_env_def demo_args_def
      create_lstm_graph_def select_device_def lower_cpu upper_lstm)

section \<open>Properties of the split\<close>

lemma rows_upto_from: "rows_upto c t @ rows_from c t = t"
  by (simp add: rows_upto_def rows_from_def)

text \<open>
  C2. For a batch of \<open>n\<close> rows and a cutoff \<open>c\<close> with \<open>0 < c < n\<close>, the in-sample
  and out-of-sample slices of the labels, and likewise of the predictions, partition the
  batch: the in-sample slice is the rows \<open>[0, c)\<close>, the out-of-sample slice the rows
  \<open>[c, n)\<close>, together they are the whole batch in order, and every row index lies in
  exactly one of them.
\<close>

theorem split_partitions_batch:
  assumes "0 < c" "c < int (length y)" "length pred = length y"
  shows "y_is c y @ y_oos c y = y \<and> pred_is c pred @ pred_oos c pred = pred
    \<and> length (y_is c y) = nat c \<and> length (pred_is c pred) = nat c
    \<and> length (y_oos c y) = length y - nat c \<and> length (pred_oos c pred) = length y - nat c
    \<and> (\<forall>i < length y.
          (i < nat c \<longrightarrow> y_is c y ! i = y ! i \<and> pred_is c pred ! i = pred ! i)
          \<and> (nat c \<le> i \<longrightarrow> y_oos c y ! (i - nat c) = y ! i
                              \<and> pred_oos c pred ! (i - nat c) = pred ! i))"
  using assms
  by (auto simp add: y_is_def y_oos_def pred_is_def pred_oos_def rows_upto_def rows_from_def
      slice_bound_def)

theorem split_partitions_batch_witness:
  "(0::int) < 2 \<and> (2::int) < int (length [[1::real], [2], [3]])
   \<and> length [[4::real], [5], [6]] = length [[1::real], [2], [3]]
   \<and> y_is 2 [[1], [2], [3]] = [[1], [2]] \<and> y_oos 2 [[1], [2], [3]] = [[3]]
   \<and> pred_is 2 [[4], [5], [6]] = [[4], [5]] \<and> pred_oos 2 [[4], [5], [6]] = [[6]]
   \<and> y_is 2 [[1], [2], [3]] @ y_oos 2 [[1], [2], [3]] = [[1], [2], [3]]
   \<and> length (y_is 2 [[1::real], [2], [3]]) = nat 2"
  using split_partitions_batch [of 2 "[[1], [2], [3]]" "[[4], [5], [6]]"]
  by (simp add: y_is_def y_oos_def pred_is_def pred_oos_def rows_upto_def rows_from_def
      slice_bound_def)

section \<open>Properties of the learning-rate schedule\<close>







section \<open>Properties of the correlation\<close>














section \<open>Properties of construction\<close>

text \<open>
  C7, as the code has it. For every instance whose cell kind is none of LSTM, GRU and
  RNN, building the network raises at build time: an assertion error once a compute
  device is set, and the graph keys stay as they were. When the constructor runs the
  build (graph creation enabled) for a cell kind that in upper case is none of the
  three, it catches that exception: the constructor returns the instance, with
  \<open>graph_ready\<close> cleared and no graph keys, and raises nothing to its caller.
\<close>

theorem unknown_cell_kind:
  "(cell_type (hp self) \<notin> {''LSTM'', ''GRU'', ''RNN''}
    \<longrightarrow> isl (fst (create_lstm_graph e n self))
        \<and> (compute_device self \<noteq> None
             \<longrightarrow> fst (create_lstm_graph e n self) = Inl AssertionError)
        \<and> graph_keys (snd (create_lstm_graph e n self)) = graph_keys self)
   \<and> (upper (a_cell_type a) \<notin> {''LSTM'', ''GRU'', ''RNN''} \<and> a_create_graph a \<and> cpu e \<noteq> []
    \<longrightarrow> (\<exists>self'. init e a = Inr self' \<and> \<not> graph_ready self' \<and> graph_keys self' = None))"
  by (auto simp add: create_lstm_graph_def init_def Let_def init_fields_def
      split: option.splits)

theorem unknown_cell_kind_witness:
  "cell_type (hp (init_fields demo_env (demo_args ''foo''))) \<notin> {''LSTM'', ''GRU'', ''RNN''}
   \<and> compute_device (init_fields demo_env (demo_args ''foo'')) \<noteq> None
   \<and> fst (create_lstm_graph demo_env (Some 1) (init_fields demo_env (demo_args ''foo'')))
       = Inl AssertionError
   \<and> upper (a_cell_type (demo_args ''foo'')) \<notin> {''LSTM'', ''GRU'', ''RNN''}
   \<and> a_create_graph (demo_args ''foo'') \<and> cpu demo_env \<noteq> []
   \<and> (\<exists>self'. init demo_env (demo_args ''foo'') = Inr self' \<and> \<not> graph_ready self'
         \<and> graph_keys self' = None)"
proof -
  have k: "cell_type (hp (init_fields demo_env (demo_args ''foo''))) \<notin> {''LSTM'', ''GRU'', ''RNN''}"
    by (simp add: init_fields_def demo_args_def upper_foo)
  have u: "upper (a_cell_type (demo_args ''foo'')) \<notin> {''LSTM'', ''GRU'', ''RNN''}"
    by (simp add: demo_args_def upper_foo)
  have d: "compute_device (init_fields demo_env (demo_args ''foo'')) \<noteq> None"
    by (simp add: init_fields_def demo_args_def demo_env_def select_device_def lower_cpu)
  have c: "a_create_graph (demo_args ''foo'')" "cpu demo_env \<noteq> []"
    by (simp_all add: demo_args_def demo_env_def)
  note t = unknown_cell_kind
    [where self = "init_fields demo_env (demo_args ''foo'')" and e = demo_env and n = "Some 1"
       and a = "demo_args ''foo''"]
  have b: "fst (create_lstm_graph demo_env (Some 1) (init_fields demo_env (demo_args ''foo'')))
           = Inl AssertionError"
    using t k d by blast
  have i: "\<exists>self'. init demo_env (demo_args ''foo'') = Inr self' \<and> \<not> graph_ready self'
         \<and> graph_keys self' = None"
    using t u c by blast
  show ?thesis
    by (intro conjI k d b u c i)
qed

text \<open>
  Constructing with the cell kind \<open>foo\<close> and graph creation enabled raises nothing: it
  returns an instance that is not ready.
\<close>

theorem constructor_swallows_unknown_cell_kind:
  "\<not> isl (init demo_env (demo_args ''foo''))
   \<and> cell_type (hp (projr (init demo_env (demo_args ''foo'')))) = ''FOO''
   \<and> \<not> graph_ready (projr (init demo_env (demo_args ''foo'')))"
  by (simp add: init_def init_fields_def demo_env_def demo_args_def create_lstm_graph_def
      select_device_def lower_cpu upper_foo)

section \<open>Properties of prediction\<close>

lemma rescale_None: "rescale PNone a b = Inl TypeError"
  by (simp add: rescale_def)

text \<open>
  For an element that is not a tuple the label, mean and standard deviation are
  \<open>None\<close>, and rescaling the label raises: the generator never yields for it.
\<close>

lemma predict_item_raw: "isl (fst (predict_item e vs (Object v) w))"
  by (cases v) (simp_all add: predict_item_def unpack_item_def rescale_None Let_def)

lemma latest_demo: "latest_ckpt (inst demo_trained_world) = ''saved_models/SESS0_latest.ckpt''"
  by (simp add: demo_trained_world_def latest_ckpt_def path_join_def fmt_sessid_def demo_instance_eq)

lemma demo_predict_entry:
  "predict_entry demo_env demo_predict_args demo_trained_world
   = (Inr (init_vars demo_env), log_event Log_session_parameters demo_trained_world)"
  unfolding predict_entry_def saver_restore_def latest_demo
  by (simp add: demo_predict_args_def demo_trained_world_def demo_instance_eq)

lemma demo_trained_fields:
  "hp (inst demo_trained_world) = hp demo_instance"
  "graph (inst demo_trained_world)"
  "compute_device (inst demo_trained_world) = Some ''/device:CPU:0''"
  by (simp_all add: demo_trained_world_def demo_instance_eq)

text \<open>
  C9. A predict call on a raw input array is to yield, per batch, a tuple whose label
  fields are \<open>None\<close>. In the code the forward pass runs and then
  \<open>batch_y * y_astd + y_mean\<close> is evaluated with all three \<open>None\<close>: on the first
  array the generator raises a \<open>TypeError\<close>, and it yields nothing.
\<close>

theorem predict_raw_array_raises:
  "fst (predict demo_env demo_predict_args demo_trained_world) = ([], Some TypeError)"
  unfolding predict_def
  by (simp add: demo_trained_fields demo_predict_entry)
     (simp add: demo_predict_args_def predict_item_def unpack_item_def rescale_None feed_ok_def
        demo_X_def log_event_def demo_trained_fields demo_instance_eq)

section \<open>Training on direct data\<close>

lemma optimizer_steps_log [simp]:
  "\<not> is_optimizer_run ev \<Longrightarrow> optimizer_steps (log_event ev w) = optimizer_steps w"
  by (simp add: optimizer_steps_def log_event_def)

lemma optimizer_steps_inst [simp]: "optimizer_steps (w\<lparr>inst := s\<rparr>) = optimizer_steps w"
  by (simp add: optimizer_steps_def)

lemma optimizer_steps_new_sessid [simp]: "optimizer_steps (new_sessid e w) = optimizer_steps w"
  by (simp add: optimizer_steps_def new_sessid_def)

lemma train_entry_optimizer_steps:
  "optimizer_steps (snd (train_entry e a w)) = optimizer_steps w"
  by (simp add: train_entry_def fresh_start_def Let_def is_optimizer_run_def
      split: option.splits sum.splits)

lemma train_loop_direct:
  assumes "l_total_sample_size l = None"
  shows "train_loop e (Direct X y m s n) epoch_end ds l w =
         (if l_i l \<le> epoch_end then (Inl NameError, log_event (Log_epoch_start (l_i l)) w)
          else (Inr l, w))"
  using assms
  by (subst train_loop.simps) (simp add: train_epoch_def call_feeder_def)

text \<open>
  The call builds its own feeder only when all five of the batch arguments are given:
  without a mean or a standard deviation it calls the feeder passed by the caller.
\<close>

lemma caller_feeder_without_scaling:
  assumes "t_y_is_mean a = PNone \<or> t_y_is_std a = PNone"
  shows "choose_feeder a = (case t_data_feeder a of None \<Rightarrow> NoFeeder | Some bs \<Rightarrow> Callable bs)"
  using assms by (auto simp add: choose_feeder_def)

text \<open>
  C10, as the code has it. The call builds its own feeder when all of \<open>batch_X\<close>,
  \<open>batch_y\<close>, \<open>in_sample_size\<close>, \<open>y_is_mean\<close> and \<open>y_is_std\<close> are given (none of
  them is \<open>None\<close>). For every such train call that reaches its epoch loop (a graph and
  a compute device exist, entering the session succeeds, and the first epoch is not
  beyond \<open>epoch_end\<close>), the first call of the internally built feeder raises
  \<open>NameError\<close>, the total sample size being unbound, and that ends the call. No such
  call runs the optimizer. Whenever that feeder does return, it returns one tuple of six
  values, and unpacking it into the loop's seven names raises \<open>ValueError\<close>.
\<close>

theorem direct_data_raises_name_error:
  assumes "t_batch_X a \<noteq> PNone" "t_batch_y a \<noteq> PNone" "t_in_sample_size a \<noteq> PNone"
    "t_y_is_mean a \<noteq> PNone" "t_y_is_std a \<noteq> PNone"
  shows "(graph (inst w) \<and> compute_device (inst w) \<noteq> None
            \<and> train_entry e a w = (Inr (vs, i), w1) \<and> i \<le> t_epoch_end a
          \<longrightarrow> train e a w = (Inl NameError, log_event (Log_epoch_start i) w1))
    \<and> optimizer_steps (snd (train e a w)) = optimizer_steps w
    \<and> (call_feeder (choose_feeder a) l = Inr ts
          \<longrightarrow> length ts = 1 \<and> length (hd ts) = 6
              \<and> train_batches e epoch_end ds ts l w' = (Inl ValueError, w'))"
proof -
  have f: "choose_feeder a
           = Direct (t_batch_X a) (t_batch_y a) (t_y_is_mean a) (t_y_is_std a)
               (t_in_sample_size a)"
    using assms by (simp add: choose_feeder_def)
  have 1: "graph (inst w) \<and> compute_device (inst w) \<noteq> None
            \<and> train_entry e a w = (Inr (vs, i), w1) \<and> i \<le> t_epoch_end a
          \<longrightarrow> train e a w = (Inl NameError, log_event (Log_epoch_start i) w1)"
    by (auto simp add: train_def f train_loop_direct initial_locals_def)
  have 2: "optimizer_steps (snd (train e a w)) = optimizer_steps w"
    using train_entry_optimizer_steps[of e a w]
    by (auto simp add: train_def f train_loop_direct is_optimizer_run_def Let_def
        initial_locals_def mark_trained_def split: option.splits prod.splits sum.splits)
  have 3: "call_feeder (choose_feeder a) l = Inr ts
          \<longrightarrow> length ts = 1 \<and> length (hd ts) = 6
              \<and> train_batches e epoch_end ds ts l w' = (Inl ValueError, w')"
    by (auto simp add: f call_feeder_def train_batch_def split: option.splits)
  show ?thesis using 1 2 3 by blast
qed

lemma demo_direct_entry:
  "train_entry demo_env (demo_direct_args k) demo_world
   = (Inr (init_vars demo_env, 1),
      log_event Log_session_parameters (new_sessid demo_env (log_event Run_init demo_world)))"
  by (simp add: train_entry_def fresh_start_def demo_direct_args_def demo_train_args_def
      demo_world_def demo_instance_eq clear_prev_results_def log_event_def)

lemma demo_entry:
  "train_entry demo_env (demo_train_args f k) demo_world
   = (Inr (init_vars demo_env, 1),
      log_event Log_session_parameters (new_sessid demo_env (log_event Run_init demo_world)))"
  by (simp add: train_entry_def fresh_start_def demo_train_args_def
      demo_world_def demo_instance_eq clear_prev_results_def log_event_def)

lemma demo_direct_feeder:
  "call_feeder (choose_feeder (demo_direct_args 1))
     ((initial_locals (demo_direct_args 1) (init_vars demo_env) 1)
        \<lparr>l_total_sample_size := Some 2\<rparr>)
   = Inr [[PArray3 demo_X, PArray2 demo_y, PFloat (Fin 0), PFloat (Fin 1), PInt 1, PInt 2]]"
  by (simp add: call_feeder_def choose_feeder_def demo_direct_args_def demo_train_args_def)

theorem direct_data_raises_name_error_witness:
  "t_batch_X (demo_direct_args 1) \<noteq> PNone \<and> t_batch_y (demo_direct_args 1) \<noteq> PNone
   \<and> t_in_sample_size (demo_direct_args 1) \<noteq> PNone \<and> t_y_is_mean (demo_direct_args 1) \<noteq> PNone
   \<and> t_y_is_std (demo_direct_args 1) \<noteq> PNone
   \<and> graph (inst demo_world) \<and> compute_device (inst demo_world) \<noteq> None
   \<and> fst (train_entry demo_env (demo_direct_args 1) demo_world) = Inr (init_vars demo_env, 1)
   \<and> 1 \<le> t_epoch_end (demo_direct_args 1)
   \<and> fst (train demo_env (demo_direct_args 1) demo_world) = Inl NameError
   \<and> optimizer_steps (snd (train demo_env (demo_direct_args 1) demo_world)) = 0
   \<and> train_batches demo_env 1 50
        [[PArray3 demo_X, PArray2 demo_y, PFloat (Fin 0), PFloat (Fin 1), PInt 1, PInt 2]]
        ((initial_locals (demo_direct_args 1) (init_vars demo_env) 1)
           \<lparr>l_total_sample_size := Some 2\<rparr>)
        demo_world
       = (Inl ValueError, demo_world)"
proof -
  have a: "t_batch_X (demo_direct_args 1) \<noteq> PNone" "t_batch_y (demo_direct_args 1) \<noteq> PNone"
    "t_in_sample_size (demo_direct_args 1) \<noteq> PNone" "t_y_is_mean (demo_direct_args 1) \<noteq> PNone"
    "t_y_is_std (demo_direct_args 1) \<noteq> PNone"
    by (simp_all add: demo_direct_args_def demo_train_args_def)
  have g: "graph (inst demo_world)" "compute_device (inst demo_world) \<noteq> None"
    by (simp_all add: demo_world_def demo_instance_eq)
  have ee: "1 \<le> t_epoch_end (demo_direct_args 1)"
    by (simp add: demo_direct_args_def demo_train_args_def)
  have z: "optimizer_steps demo_world = 0"
    by (simp add: optimizer_steps_def demo_world_def)
  have e: "train_entry demo_env (demo_direct_args 1) demo_world
           = (Inr (init_vars demo_env, 1),
              log_event Log_session_parameters
                (new_sessid demo_env (log_event Run_init demo_world)))"
    by (rule demo_direct_entry)
  have e1: "fst (train_entry demo_env (demo_direct_args 1) demo_world)
            = Inr (init_vars demo_env, 1)"
    by (simp add: e)
  have r: "train demo_env (demo_direct_args 1) demo_world
           = (Inl NameError,
              log_event (Log_epoch_start 1)
                (log_event Log_session_parameters
                  (new_sessid demo_env (log_event Run_init demo_world))))"
    using direct_data_raises_name_error [OF a, where w = demo_world and e = demo_env] g ee e
    by blast
  have r1: "fst (train demo_env (demo_direct_args 1) demo_world) = Inl NameError"
    by (simp add: r)
  have n: "optimizer_steps (snd (train demo_env (demo_direct_args 1) demo_world)) = 0"
    using direct_data_raises_name_error [OF a, where w = demo_world and e = demo_env] z
    by simp
  have u: "train_batches demo_env 1 50
        [[PArray3 demo_X, PArray2 demo_y, PFloat (Fin 0), PFloat (Fin 1), PInt 1, PInt 2]]
        ((initial_locals (demo_direct_args 1) (init_vars demo_env) 1)
           \<lparr>l_total_sample_size := Some 2\<rparr>)
        demo_world
       = (Inl ValueError, demo_world)"
    using direct_data_raises_name_error [OF a, where e = demo_env and w' = demo_world
        and epoch_end = 1 and ds = 50
        and l = "(initial_locals (demo_direct_args 1) (init_vars demo_env) 1)
                   \<lparr>l_total_sample_size := Some 2\<rparr>"
        and ts = "[[PArray3 demo_X, PArray2 demo_y, PFloat (Fin 0), PFloat (Fin 1), PInt 1,
                    PInt 2]]"]
      demo_direct_feeder
    by blast
  show ?thesis
    by (intro conjI a g e1 ee r1 n u)
qed

text \<open>
  With direct data and \<open>epoch_end = 0\<close> a fresh call never enters the loop: it returns
  its (empty) results and raises nothing.
\<close>

theorem direct_data_without_epochs_returns:
  "fst (train demo_env (demo_direct_args 0) demo_world) = Inr (Some empty_results)"
proof -
  have f: "choose_feeder (demo_direct_args 0) = Direct (PArray3 demo_X) (PArray2 demo_y) (PFloat (Fin 0)) (PFloat (Fin 1)) (PInt 1)"
    by (simp add: choose_feeder_def demo_direct_args_def demo_train_args_def)
  have g: "graph (inst demo_world)" "compute_device (inst demo_world) = Some ''/device:CPU:0''"
    by (simp_all add: demo_world_def demo_instance_eq)
  have ee: "t_epoch_end (demo_direct_args 0) = 0"
    by (simp add: demo_direct_args_def demo_train_args_def)
  show ?thesis
    unfolding train_def
    by (simp add: f g demo_direct_entry train_loop_direct ee initial_locals_def)
      (simp add: log_event_def new_sessid_def demo_world_def demo_instance_eq clear_prev_results_def
         mark_trained_def)
qed

section \<open>Batches with non-finite values\<close>

text \<open>
  A tuple whose \<open>X\<close> or \<open>y\<close> holds a non-finite value is passed over: nothing is
  raised, the world is as it was, and of the local variables only the total sample size
  has changed; the loop goes on with the next tuple.
\<close>

lemma train_batch_skips_non_finite:
  assumes "length t = 7" "t ! 0 = PArray3 X"
    "isfinite_sum3 X \<noteq> size3 X \<or> (\<exists>y. t ! 1 = PArray2 y \<and> isfinite_sum2 y \<noteq> size2 y)"
  shows "train_batch e epoch_end ds t l w
         = (Inr (l\<lparr>l_total_sample_size := Some (length (rows3 X))\<rparr>), w)"
  using assms by (auto simp add: train_batch_def Let_def)

lemma train_batches_skip:
  assumes "length t = 7" "t ! 0 = PArray3 X"
    "isfinite_sum3 X \<noteq> size3 X \<or> (\<exists>y. t ! 1 = PArray2 y \<and> isfinite_sum2 y \<noteq> size2 y)"
  shows "train_batches e epoch_end ds (t # ts) l w
         = train_batches e epoch_end ds ts (l\<lparr>l_total_sample_size := Some (length (rows3 X))\<rparr>) w"
  by (simp add: train_batch_skips_non_finite[OF assms])

text \<open>
  C4. A batch with a non-finite value is to be skipped with no exception propagating,
  the rest of the epoch going on. When the feeder's only batch holds a NaN, the batch is
  skipped and the end of the epoch then reads the shape of the out-of-sample accumulator,
  which is still \<open>None\<close>: the call raises \<open>AttributeError\<close>.
\<close>

theorem all_batches_skipped_raises:
  "fst (train demo_env (demo_train_args (Some [nan_batch]) 1) demo_world) = Inl AttributeError"
proof -
  have f: "choose_feeder (demo_train_args (Some [nan_batch]) 1) = Callable [nan_batch]"
    by (simp add: choose_feeder_def demo_train_args_def)
  have g: "graph (inst demo_world)" "compute_device (inst demo_world) = Some ''/device:CPU:0''"
    by (simp_all add: demo_world_def demo_instance_eq)
  have ee: "t_epoch_end (demo_train_args (Some [nan_batch]) 1) = 1"
    by (simp add: demo_train_args_def)
  have skip: "train_batch e epoch_end ds nan_batch l w
         = (Inr (l\<lparr>l_total_sample_size := Some 1\<rparr>), w)" for e epoch_end ds l w
    by (simp add: train_batch_def nan_batch_def isfinite_sum3_def size3_def)
  show ?thesis
    unfolding train_def
    by (simp add: f g demo_entry ee initial_locals_def)
      (simp add: train_loop.simps train_epoch_def call_feeder_def io_bind_def skip end_of_epoch_def)
qed

section \<open>Training does not depend on which saves fail\<close>

lemma same_state_log [simp]:
  "same_state (log_event ev w) w' = same_state w w'"
  "same_state w (log_event ev w') = same_state w w'"
  by (simp_all add: same_state_def log_event_def)




lemma io_same_pair [simp]: "io_same (x, w) (x', w') = (x = x' \<and> same_state w w')"
  by (simp add: io_same_def)













section \<open>What a training run leaves\<close>

lemma extends_refl [simp]: "extends [] w w"
  by (simp add: extends_def)


lemma extends_log [simp]: "extends k w (log_event ev w') = extends k w w'"
  "extends k (log_event ev w) w' = extends k w w'"
  by (simp_all add: extends_def log_event_def)






lemma save_checkpoints_extends [simp]:
  "extends k w (save_checkpoints e l v) = extends k w v"
  by (simp add: save_checkpoints_def Let_def extends_def log_event_def)





lemma mark_trained_extends [simp]: "extends k w (mark_trained i v) = extends k w v"
  by (simp add: extends_def mark_trained_def frame_def)







section \<open>Runs of the concrete instance\<close>















section \<open>Resuming and fresh runs\<close>




section \<open>Checkpoint failures\<close>





end
